theory Spec2Isabelle
  imports Main
begin

section \<open>Python values\<close>

text \<open>
  The module \<^verbatim>\<open>utils/message_utils.py\<close> turns chat messages into text. Python strings
  are modelled as \<^typ>\<open>string\<close>; the fixed Chinese placeholders are the UTF-8 bytes of the
  source's literals, each under a name of its own. The code only concatenates strings, tests
  them for emptiness and strips the ASCII prefix \<^verbatim>\<open>file:///\<close>, so bytes and code points
  agree on everything modelled here.
\<close>

datatype pyerror = AttributeError | TypeError | OtherError string

text \<open>
  An attribute value as the f-strings of the source see it: \<^verbatim>\<open>None\<close>, a \<^verbatim>\<open>str\<close> or an
  \<^verbatim>\<open>int\<close>.
\<close>

datatype pyval = PNone | PStr string | PInt int

text \<open>Truthiness, as \<^verbatim>\<open>if x:\<close> and \<^verbatim>\<open>x or y\<close> test it.\<close>

fun py_truthy :: "pyval \<Rightarrow> bool" where
  "py_truthy PNone = False"
| "py_truthy (PStr s) = (s \<noteq> [])"
| "py_truthy (PInt n) = (n \<noteq> 0)"

definition digit_char :: "nat \<Rightarrow> char" where
  "digit_char d = ''0123456789'' ! d"

function str_of_nat :: "nat \<Rightarrow> string" where
  "str_of_nat n =
     (if n < 10 then [digit_char n] else str_of_nat (n div 10) @ [digit_char (n mod 10)])"
  by pat_completeness auto
termination
  by (relation "measure (\<lambda>n. n)") auto

declare str_of_nat.simps [simp del]

definition str_of_int :: "int \<Rightarrow> string" where
  "str_of_int i = (if i < 0 then ''-'' @ str_of_nat (nat (- i)) else str_of_nat (nat i))"

text \<open>\<^verbatim>\<open>str(x)\<close>, which is what \<^verbatim>\<open>f"{x}"\<close> inserts.\<close>

fun py_format :: "pyval \<Rightarrow> string" where
  "py_format PNone = ''None''"
| "py_format (PStr s) = s"
| "py_format (PInt n) = str_of_int n"

text \<open>\<^verbatim>\<open>s.startswith(p)\<close>.\<close>

definition startswith :: "string \<Rightarrow> string \<Rightarrow> bool" where
  "startswith s p = (take (length p) s = p)"

text \<open>\<^verbatim>\<open>p in s\<close> on two strings: \<open>p\<close> occurs in \<open>s\<close> as a contiguous run.\<close>

fun str_contains :: "string \<Rightarrow> string \<Rightarrow> bool" where
  "str_contains [] p = (p = [])"
| "str_contains (c # s) p = (startswith (c # s) p \<or> str_contains s p)"

text \<open>\<^verbatim>\<open>xs[j:]\<close> for any integer \<open>j\<close>: a negative start counts from the end.\<close>

definition py_slice_from :: "'a list \<Rightarrow> int \<Rightarrow> 'a list" where
  "py_slice_from xs j =
     (if j < 0 then drop (nat (max 0 (int (length xs) + j))) xs else drop (nat j) xs)"

section \<open>The placeholders of the source\<close>

definition zh_unknown_user :: string where
  "zh_unknown_user = [CHR 0xE6, CHR 0x9C, CHR 0xAA, CHR 0xE7, CHR 0x9F, CHR 0xA5, CHR 0xE7, CHR 0x94, CHR 0xA8, CHR 0xE6, CHR 0x88, CHR 0xB7]"

definition zh_unknown_time :: string where
  "zh_unknown_time = [CHR 0xE6, CHR 0x9C, CHR 0xAA, CHR 0xE7, CHR 0x9F, CHR 0xA5, CHR 0xE6, CHR 0x97, CHR 0xB6, CHR 0xE9, CHR 0x97, CHR 0xB4]"

definition zh_sender :: string where
  "zh_sender = [CHR 0xE5, CHR 0x8F, CHR 0x91, CHR 0xE9, CHR 0x80, CHR 0x81, CHR 0xE8, CHR 0x80, CHR 0x85]"

definition zh_time :: string where
  "zh_time = [CHR 0xE6, CHR 0x97, CHR 0xB6, CHR 0xE9, CHR 0x97, CHR 0xB4]"

definition zh_content :: string where
  "zh_content = [CHR 0xE5, CHR 0x86, CHR 0x85, CHR 0xE5, CHR 0xAE, CHR 0xB9]"

definition zh_image :: string where
  "zh_image = [CHR 0xE5, CHR 0x9B, CHR 0xBE, CHR 0xE7, CHR 0x89, CHR 0x87]"

definition zh_file_missing :: string where
  "zh_file_missing = [CHR 0xE6, CHR 0x96, CHR 0x87, CHR 0xE4, CHR 0xBB, CHR 0xB6, CHR 0xE4, CHR 0xB8, CHR 0x8D, CHR 0xE5, CHR 0xAD, CHR 0x98, CHR 0xE5, CHR 0x9C, CHR 0xA8]"

definition zh_face :: string where
  "zh_face = [CHR 0xE8, CHR 0xA1, CHR 0xA8, CHR 0xE6, CHR 0x83, CHR 0x85]"

definition zh_all_members :: string where
  "zh_all_members = [CHR 0xE5, CHR 0x85, CHR 0xA8, CHR 0xE4, CHR 0xBD, CHR 0x93, CHR 0xE6, CHR 0x88, CHR 0x90, CHR 0xE5, CHR 0x91, CHR 0x98]"

definition zh_voice :: string where
  "zh_voice = [CHR 0xE8, CHR 0xAF, CHR 0xAD, CHR 0xE9, CHR 0x9F, CHR 0xB3]"

definition zh_video :: string where
  "zh_video = [CHR 0xE8, CHR 0xA7, CHR 0x86, CHR 0xE9, CHR 0xA2, CHR 0x91]"

definition zh_rps :: string where
  "zh_rps = [CHR 0xE7, CHR 0x8C, CHR 0x9C, CHR 0xE6, CHR 0x8B, CHR 0xB3]"

definition zh_dice :: string where
  "zh_dice = [CHR 0xE9, CHR 0xAA, CHR 0xB0, CHR 0xE5, CHR 0xAD, CHR 0x90]"

definition zh_shake :: string where
  "zh_shake = [CHR 0xE6, CHR 0x8A, CHR 0x96, CHR 0xE4, CHR 0xB8, CHR 0x80, CHR 0xE6, CHR 0x8A, CHR 0x96]"

definition zh_anonymous :: string where
  "zh_anonymous = [CHR 0xE5, CHR 0x8C, CHR 0xBF, CHR 0xE5, CHR 0x90, CHR 0x8D]"

definition zh_share :: string where
  "zh_share = [CHR 0xE5, CHR 0x88, CHR 0x86, CHR 0xE4, CHR 0xBA, CHR 0xAB]"

definition zh_lquote :: string where
  "zh_lquote = [CHR 0xE3, CHR 0x80, CHR 0x8A]"

definition zh_rquote :: string where
  "zh_rquote = [CHR 0xE3, CHR 0x80, CHR 0x8B]"

definition zh_contact :: string where
  "zh_contact = [CHR 0xE8, CHR 0x81, CHR 0x94, CHR 0xE7, CHR 0xB3, CHR 0xBB, CHR 0xE4, CHR 0xBA, CHR 0xBA]"

definition zh_location :: string where
  "zh_location = [CHR 0xE4, CHR 0xBD, CHR 0x8D, CHR 0xE7, CHR 0xBD, CHR 0xAE]"

definition zh_music :: string where
  "zh_music = [CHR 0xE9, CHR 0x9F, CHR 0xB3, CHR 0xE4, CHR 0xB9, CHR 0x90]"

definition zh_redbag :: string where
  "zh_redbag = [CHR 0xE7, CHR 0xBA, CHR 0xA2, CHR 0xE5, CHR 0x8C, CHR 0x85]"

definition zh_poke :: string where
  "zh_poke = [CHR 0xE6, CHR 0x88, CHR 0xB3, CHR 0xE4, CHR 0xB8, CHR 0x80, CHR 0xE6, CHR 0x88, CHR 0xB3, CHR 0x20, CHR 0xE5, CHR 0xAF, CHR 0xB9]"

definition zh_forward :: string where
  "zh_forward = [CHR 0xE5, CHR 0x90, CHR 0x88, CHR 0xE5, CHR 0xB9, CHR 0xB6, CHR 0xE8, CHR 0xBD, CHR 0xAC, CHR 0xE5, CHR 0x8F, CHR 0x91, CHR 0xE6, CHR 0xB6, CHR 0x88, CHR 0xE6, CHR 0x81, CHR 0xAF]"

definition zh_message :: string where
  "zh_message = [CHR 0xE6, CHR 0xB6, CHR 0x88, CHR 0xE6, CHR 0x81, CHR 0xAF]"

definition zh_card :: string where
  "zh_card = [CHR 0xE5, CHR 0x8D, CHR 0xA1, CHR 0xE7, CHR 0x89, CHR 0x87]"

definition zh_miniapp :: string where
  "zh_miniapp = [CHR 0xE5, CHR 0xB0, CHR 0x8F, CHR 0xE7, CHR 0xA8, CHR 0x8B, CHR 0xE5, CHR 0xBA, CHR 0x8F]"

definition zh_file :: string where
  "zh_file = [CHR 0xE6, CHR 0x96, CHR 0x87, CHR 0xE4, CHR 0xBB, CHR 0xB6]"

definition zh_wechat_emoji :: string where
  "zh_wechat_emoji = [CHR 0xE5, CHR 0xBE, CHR 0xAE, CHR 0xE4, CHR 0xBF, CHR 0xA1, CHR 0xE8, CHR 0xA1, CHR 0xA8, CHR 0xE6, CHR 0x83, CHR 0x85]"

definition zh_reply :: string where
  "zh_reply = [CHR 0xE5, CHR 0x9B, CHR 0x9E, CHR 0xE5, CHR 0xA4, CHR 0x8D]"

text \<open>The fragments that take no parameter.\<close>

definition image_plain :: string where
  "image_plain = ''['' @ zh_image @ '']''"

definition image_missing :: string where
  "image_missing = ''['' @ zh_image @ '': '' @ zh_file_missing @ '']''"

definition json_generic :: string where
  "json_generic = ''[JSON'' @ zh_message @ '']''"

definition reply_generic :: string where
  "reply_generic = ''['' @ zh_reply @ zh_message @ '']''"

section \<open>What the module takes from outside\<close>

text \<open>
  A value \<^verbatim>\<open>json.loads\<close> can return. A JSON object is the list of its items; a number with
  a fraction or an exponent is a float, kept as mantissa and exponent.
\<close>

datatype json =
    JNull
  | JBool bool
  | JInt int
  | JFloat int int
  | JString string
  | JArray "json list"
  | JObject "(string \<times> json) list"

text \<open>
  The collaborators the module calls and does not define, as parameters:
  \<^item> \<open>path_exists\<close>: \<^verbatim>\<open>os.path.exists\<close>;
  \<^item> \<open>generate_image_caption\<close>: awaiting \<^verbatim>\<open>ImageCaptionUtils.generate_image_caption\<close>,
    which returns a caption or \<^verbatim>\<open>None\<close>, or raises an \<^verbatim>\<open>Exception\<close>;
  \<^item> \<open>json_loads\<close>: \<^verbatim>\<open>json.loads\<close>, \<open>None\<close> when it raises;
  \<^item> \<open>py_repr\<close>: \<^verbatim>\<open>str\<close> of a parsed JSON value that is not a string;
  \<^item> \<open>str_lower\<close>: \<^verbatim>\<open>str.lower\<close>;
  \<^item> \<open>class_defined\<close>: whether \<^verbatim>\<open>globals()\<close> binds a name to a class, which depends on
    what the star import of the framework brings in;
  \<^item> \<open>strftime_local\<close>: \<^verbatim>\<open>datetime.fromtimestamp(t).strftime("%Y-%m-%d %H:%M:%S")\<close>,
    \<open>None\<close> when the conversion raises.
  Logging is not modelled.
\<close>

record env =
  path_exists :: "string \<Rightarrow> bool"
  generate_image_caption :: "string \<Rightarrow> pyerror + string option"
  json_loads :: "string \<Rightarrow> json option"
  py_repr :: "json \<Rightarrow> string"
  str_lower :: "string \<Rightarrow> string"
  class_defined :: "string \<Rightarrow> bool"
  strftime_local :: "int \<Rightarrow> string option"

section \<open>Message segments\<close>

text \<open>
  The classes the source tests with \<^verbatim>\<open>isinstance\<close> are constructors whose fields are the
  attributes the source reads from them. Every other object is \<open>Other\<close>: the name of its
  class and its attributes, read by the source with \<^verbatim>\<open>hasattr\<close> and \<^verbatim>\<open>getattr\<close>.
  An empty \<open>chain\<close> stands for both \<^verbatim>\<open>None\<close> and \<^verbatim>\<open>[]\<close>, which \<^verbatim>\<open>if i.chain\<close> does not
  tell apart. The class hierarchy is flat, and an object of one of the thirteen named
  classes carries the type tag of its class, which is none of the tags \<open>type_mapping\<close> lists.
\<close>

datatype segment =
    Plain string
  | ImageSeg pyval pyval
  | Face pyval
  | At pyval pyval
  | AtAll
  | Record
  | Video
  | Share pyval pyval
  | Contact pyval
  | Location pyval pyval
  | Music pyval pyval
  | File pyval
  | Reply "segment list" pyval pyval pyval
  | Other string "(string \<times> pyval) list"

definition type_mapping :: "(string \<times> string) list" where
  "type_mapping =
     [(''anonymous'', ''Anonymous''), (''rps'', ''RPS''), (''dice'', ''Dice''),
      (''shake'', ''Shake''), (''redbag'', ''RedBag''), (''poke'', ''Poke''),
      (''forward'', ''Forward''), (''node'', ''Node''), (''nodes'', ''Nodes''),
      (''xml'', ''Xml''), (''json'', ''Json''), (''cardimage'', ''CardImage''),
      (''tts'', ''TTS''), (''wechatemoji'', ''WechatEmoji'')]"

text \<open>
  \<^verbatim>\<open>_safe_isinstance(obj, class_name)\<close>. A \<^verbatim>\<open>type\<close> attribute that is not a string has no
  \<^verbatim>\<open>lower\<close>: the call raises, outside the function's \<^verbatim>\<open>try\<close>.
\<close>

definition safe_isinstance ::
  "env \<Rightarrow> string \<Rightarrow> (string \<times> pyval) list \<Rightarrow> string \<Rightarrow> pyerror + bool" where
  "safe_isinstance e cls attrs class_name =
     (case map_of attrs ''type'' of
        None \<Rightarrow> Inr (class_defined e class_name \<and> cls = class_name)
      | Some (PStr t) \<Rightarrow>
          (if map_of type_mapping (str_lower e t) = Some class_name then Inr True
           else Inr (class_defined e class_name \<and> cls = class_name))
      | Some _ \<Rightarrow> Inl AttributeError)"

text \<open>\<^verbatim>\<open>getattr(i, name, '')\<close> inside an f-string.\<close>

definition getattr_str :: "(string \<times> pyval) list \<Rightarrow> string \<Rightarrow> string" where
  "getattr_str attrs name = (case map_of attrs name of None \<Rightarrow> [] | Some v \<Rightarrow> py_format v)"

text \<open>One \<^verbatim>\<open>elif\<close> of the chain whose test can raise.\<close>

definition elif :: "pyerror + bool \<Rightarrow> pyerror + 'a \<Rightarrow> pyerror + 'a \<Rightarrow> pyerror + 'a" where
  "elif c t f = (case c of Inl err \<Rightarrow> Inl err | Inr b \<Rightarrow> if b then t else f)"

subsection \<open>The JSON arm\<close>

text \<open>
  \<^verbatim>\<open>key in json_data\<close> and \<^verbatim>\<open>json_data.get(key, '')\<close> on whatever \<^verbatim>\<open>json.loads\<close>
  returned: only a dict has \<^verbatim>\<open>get\<close>, and a number, a bool and \<^verbatim>\<open>None\<close> do not support
  \<^verbatim>\<open>in\<close>.
\<close>

fun json_in :: "string \<Rightarrow> json \<Rightarrow> pyerror + bool" where
  "json_in k (JObject kvs) = Inr (k \<in> set (map fst kvs))"
| "json_in k (JArray xs) = Inr (JString k \<in> set xs)"
| "json_in k (JString s) = Inr (str_contains s k)"
| "json_in k _ = Inl TypeError"

fun json_get :: "json \<Rightarrow> string \<Rightarrow> pyerror + json" where
  "json_get (JObject kvs) k = Inr (case map_of kvs k of None \<Rightarrow> JString [] | Some v \<Rightarrow> v)"
| "json_get _ k = Inl AttributeError"

definition json_str :: "env \<Rightarrow> json \<Rightarrow> string" where
  "json_str e v = (case v of JString s \<Rightarrow> s | _ \<Rightarrow> py_repr e v)"

text \<open>The body of the \<^verbatim>\<open>try\<close>, then the bare \<^verbatim>\<open>except\<close> around it.\<close>

definition json_try :: "env \<Rightarrow> string \<Rightarrow> pyerror + string" where
  "json_try e s =
     (case json_loads e s of
        None \<Rightarrow> Inl (OtherError ''JSONDecodeError'')
      | Some json_data \<Rightarrow>
          elif (json_in ''prompt'' json_data)
            (case json_get json_data ''prompt'' of
               Inl err \<Rightarrow> Inl err
             | Inr v \<Rightarrow> Inr (''[JSON'' @ zh_card @ '':'' @ json_str e v @ '']''))
          (elif (json_in ''app'' json_data)
            (case json_get json_data ''app'' of
               Inl err \<Rightarrow> Inl err
             | Inr v \<Rightarrow> Inr (''['' @ zh_miniapp @ '':'' @ json_str e v @ '']''))
            (Inr json_generic)))"

definition outline_json :: "env \<Rightarrow> (string \<times> pyval) list \<Rightarrow> string" where
  "outline_json e attrs =
     (case map_of attrs ''data'' of
        Some (PStr json_data_attr) \<Rightarrow>
          (case json_try e json_data_attr of Inl err \<Rightarrow> json_generic | Inr s \<Rightarrow> s)
      | _ \<Rightarrow> json_generic)"

subsection \<open>The arms for objects of no named class\<close>

definition outline_other :: "env \<Rightarrow> string \<Rightarrow> (string \<times> pyval) list \<Rightarrow> pyerror + string" where
  "outline_other e cls attrs =
     elif (safe_isinstance e cls attrs ''RPS'') (Inr (''['' @ zh_rps @ '']''))
    (elif (safe_isinstance e cls attrs ''Dice'') (Inr (''['' @ zh_dice @ '']''))
    (elif (safe_isinstance e cls attrs ''Shake'') (Inr (''['' @ zh_shake @ '']''))
    (elif (safe_isinstance e cls attrs ''Anonymous'') (Inr (''['' @ zh_anonymous @ '']''))
    (elif (safe_isinstance e cls attrs ''RedBag'')
       (Inr (''['' @ zh_redbag @ '':'' @ getattr_str attrs ''title'' @ '']''))
    (elif (safe_isinstance e cls attrs ''Poke'')
       (Inr (''['' @ zh_poke @ '':'' @ getattr_str attrs ''qq'' @ '']''))
    (elif (safe_isinstance e cls attrs ''Forward'') (Inr (''['' @ zh_forward @ '']''))
    (elif (safe_isinstance e cls attrs ''Node'') (Inr (''['' @ zh_forward @ '']''))
    (elif (safe_isinstance e cls attrs ''Nodes'') (Inr (''['' @ zh_forward @ '']''))
    (elif (safe_isinstance e cls attrs ''Xml'') (Inr (''[XML'' @ zh_message @ '']''))
    (elif (safe_isinstance e cls attrs ''Json'') (Inr (outline_json e attrs))
    (elif (safe_isinstance e cls attrs ''CardImage'')
       (Inr (''['' @ zh_card @ zh_image @ '':'' @ getattr_str attrs ''source'' @ '']''))
    (elif (safe_isinstance e cls attrs ''TTS'')
       (Inr (''[TTS:'' @ getattr_str attrs ''text'' @ '']''))
    (elif (safe_isinstance e cls attrs ''WechatEmoji'') (Inr (''['' @ zh_wechat_emoji @ '']''))
       (case map_of attrs ''type'' of
          None \<Rightarrow> Inl AttributeError
        | Some v \<Rightarrow> Inr (''['' @ py_format v @ '']'')))))))))))))))"

subsection \<open>The image arm\<close>

text \<open>
  A fragment and the references the captioning client was called with. The
  \<^verbatim>\<open>except Exception\<close> of the arm turns a raising client, and \<^verbatim>\<open>startswith\<close> on a
  reference that is not a string, into the bare placeholder.
\<close>

definition caption_fragment :: "env \<Rightarrow> string \<Rightarrow> string \<times> string list" where
  "caption_fragment e image_ref =
     (case generate_image_caption e image_ref of
        Inl err \<Rightarrow> (image_plain, [image_ref])
      | Inr caption \<Rightarrow>
          (case caption of
             None \<Rightarrow> (image_plain, [image_ref])
           | Some c \<Rightarrow>
               (if c \<noteq> [] then (''['' @ zh_image @ '': '' @ c @ '']'', [image_ref])
                else (image_plain, [image_ref]))))"

definition outline_image :: "env \<Rightarrow> pyval \<Rightarrow> pyval \<Rightarrow> string \<times> string list" where
  "outline_image e file url =
     (let image_ref = (if py_truthy file then file else url) in
      if py_truthy image_ref then
        (case image_ref of
           PStr s \<Rightarrow>
             (if startswith s ''file:///'' then
                (let image_path = drop 8 s in
                 if \<not> path_exists e image_path then (image_missing, [])
                 else caption_fragment e image_path)
              else caption_fragment e s)
         | _ \<Rightarrow> (image_plain, []))
      else (image_plain, []))"

subsection \<open>The outliner\<close>

definition sender_info :: "pyval \<Rightarrow> pyval \<Rightarrow> string" where
  "sender_info sender_nickname sender_id =
     (if py_truthy sender_nickname
      then py_format sender_nickname @ ''('' @ py_format sender_id @ '')''
      else py_format sender_id)"

definition opt_paren :: "pyval \<Rightarrow> string" where
  "opt_paren v = (if py_truthy v then ''('' @ py_format v @ '')'' else [])"

text \<open>
  \<open>outline_segment\<close> is one pass through the loop body of \<^verbatim>\<open>outline_message_list\<close>: the
  text it appends and the captioning calls it makes. \<open>outline_loop\<close> is the \<^verbatim>\<open>for\<close> loop
  with its accumulator; an exception leaves both.
\<close>

function outline_segment :: "env \<Rightarrow> segment \<Rightarrow> pyerror + (string \<times> string list)"
  and outline_loop ::
    "env \<Rightarrow> segment list \<Rightarrow> string \<Rightarrow> string list \<Rightarrow> pyerror + (string \<times> string list)"
where
  "outline_segment e (Plain text) = Inr (text, [])"
| "outline_segment e (ImageSeg file url) = Inr (outline_image e file url)"
| "outline_segment e (Face ident) = Inr (''['' @ zh_face @ '':'' @ py_format ident @ '']'', [])"
| "outline_segment e (At qq name) = Inr (''[At:'' @ py_format qq @ opt_paren name @ '']'', [])"
| "outline_segment e AtAll = Inr (''[At:'' @ zh_all_members @ '']'', [])"
| "outline_segment e Record = Inr (''['' @ zh_voice @ '']'', [])"
| "outline_segment e Video = Inr (''['' @ zh_video @ '']'', [])"
| "outline_segment e (Share title content) =
     Inr (''['' @ zh_share @ '':'' @ zh_lquote @ py_format title @ zh_rquote
          @ (if py_truthy content then py_format content else []) @ '']'', [])"
| "outline_segment e (Contact ident) =
     Inr (''['' @ zh_contact @ '':'' @ py_format ident @ '']'', [])"
| "outline_segment e (Location title content) =
     Inr (''['' @ zh_location @ '':'' @ py_format title @ opt_paren content @ '']'', [])"
| "outline_segment e (Music title content) =
     Inr (''['' @ zh_music @ '':'' @ py_format title @ opt_paren content @ '']'', [])"
| "outline_segment e (File name) = Inr (''['' @ zh_file @ '':'' @ py_format name @ '']'', [])"
| "outline_segment e (Reply chain sender_nickname sender_id message_str) =
     (if chain \<noteq> [] then
        (case outline_loop e chain [] [] of
           Inl err \<Rightarrow> Inl err
         | Inr (reply_content, calls) \<Rightarrow>
             Inr (''['' @ zh_reply @ ''('' @ sender_info sender_nickname sender_id @ '': ''
                  @ reply_content @ '')]'', calls))
      else if py_truthy message_str then
        Inr (''['' @ zh_reply @ ''('' @ sender_info sender_nickname sender_id @ '': ''
             @ py_format message_str @ '')]'', [])
      else if py_truthy sender_nickname \<or> py_truthy sender_id then
        Inr (''['' @ zh_reply @ ''('' @ sender_info sender_nickname sender_id @ '')]'', [])
      else Inr (reply_generic, []))"
| "outline_segment e (Other cls attrs) =
     (case outline_other e cls attrs of Inl err \<Rightarrow> Inl err | Inr s \<Rightarrow> Inr (s, []))"
| "outline_loop e [] outline calls = Inr (outline, calls)"
| "outline_loop e (i # rest) outline calls =
     (case outline_segment e i of
        Inl err \<Rightarrow> Inl err
      | Inr (fragment, cs) \<Rightarrow> outline_loop e rest (outline @ fragment) (calls @ cs))"
  by pat_completeness auto
termination
  by (relation "measure (\<lambda>x. case x of
         Inl (e, i) \<Rightarrow> size i
       | Inr (e, xs, outline, calls) \<Rightarrow> size_list size xs)") auto

definition outline_message_list ::
  "env \<Rightarrow> segment list \<Rightarrow> pyerror + (string \<times> string list)" where
  "outline_message_list e message_list = outline_loop e message_list [] []"

section \<open>The history formatter\<close>

text \<open>
  An absent field stands for a missing attribute and for a falsy one: the source tests
  \<^verbatim>\<open>hasattr(msg, "sender") and msg.sender\<close>, and a member object is truthy. An empty
  \<open>message\<close> stands for a missing or empty segment list.
\<close>

record message_member =
  nickname :: pyval
  user_id :: pyval

record astrbot_message =
  sender :: "message_member option"
  timestamp :: "int option"
  message :: "segment list"

definition divider :: string where
  "divider = [CHR 0x0A] @ ''-'' @ [CHR 0x0A]"

text \<open>\<^verbatim>\<open>x or default\<close>.\<close>

definition py_or :: "pyval \<Rightarrow> string \<Rightarrow> string" where
  "py_or v d = (if py_truthy v then py_format v else d)"

definition sender_name :: "astrbot_message \<Rightarrow> string" where
  "sender_name msg =
     (case sender msg of None \<Rightarrow> zh_unknown_user | Some s \<Rightarrow> py_or (nickname s) zh_unknown_user)"

definition sender_id :: "astrbot_message \<Rightarrow> string" where
  "sender_id msg =
     (case sender msg of None \<Rightarrow> ''unknown'' | Some s \<Rightarrow> py_or (user_id s) ''unknown'')"

definition send_time :: "env \<Rightarrow> astrbot_message \<Rightarrow> string" where
  "send_time e msg =
     (case timestamp msg of
        None \<Rightarrow> zh_unknown_time
      | Some t \<Rightarrow>
          (if t \<noteq> 0 then
             (case strftime_local e t of None \<Rightarrow> zh_unknown_time | Some s \<Rightarrow> s)
           else zh_unknown_time))"

definition message_text :: "env \<Rightarrow> astrbot_message \<Rightarrow> string \<Rightarrow> string" where
  "message_text e msg message_content =
     zh_sender @ '': '' @ sender_name msg @ '' (ID: '' @ sender_id msg @ '')'' @ [CHR 0x0A]
     @ zh_time @ '': '' @ send_time e msg @ [CHR 0x0A]
     @ zh_content @ '': '' @ message_content"

text \<open>
  The \<^verbatim>\<open>for idx, msg in enumerate(history_messages)\<close> loop: \<open>n\<close> is
  \<^verbatim>\<open>len(history_messages)\<close>, \<open>formatted_text\<close> the accumulator.
\<close>

fun history_loop ::
  "env \<Rightarrow> astrbot_message list \<Rightarrow> nat \<Rightarrow> nat \<Rightarrow> string \<Rightarrow> string list
     \<Rightarrow> pyerror + (string \<times> string list)" where
  "history_loop e [] idx n formatted_text calls = Inr (formatted_text, calls)"
| "history_loop e (msg # rest) idx n formatted_text calls =
     (case (if message msg \<noteq> [] then outline_message_list e (message msg) else Inr ([], [])) of
        Inl err \<Rightarrow> Inl err
      | Inr (message_content, cs) \<Rightarrow>
          history_loop e rest (Suc idx) n
            (formatted_text @ message_text e msg message_content
             @ (if int idx < int n - 1 then divider else []))
            (calls @ cs))"

definition format_history_for_llm ::
  "env \<Rightarrow> astrbot_message list \<Rightarrow> int \<Rightarrow> pyerror + (string \<times> string list)" where
  "format_history_for_llm e history_messages max_messages =
     (if history_messages = [] then Inr ([], [])
      else
        (let kept =
           (if int (length history_messages) > max_messages
            then py_slice_from history_messages (- max_messages)
            else history_messages)
         in history_loop e kept 0 (length kept) [] []))"

text \<open>Blocks with one divider between each two of them, and none at the end.\<close>

fun join_blocks :: "string list \<Rightarrow> string" where
  "join_blocks [] = []"
| "join_blocks [b] = b"
| "join_blocks (b # c # bs) = b @ divider @ join_blocks (c # bs)"

section \<open>Segments that carry a type tag\<close>

text \<open>
  Every framework component has a \<^verbatim>\<open>type\<close> attribute holding a string. \<open>type_tagged\<close>
  says so of the objects of no named class in a segment, at every depth of a quoted chain.
\<close>

fun type_tagged :: "segment \<Rightarrow> bool" where
  "type_tagged (Other cls attrs) =
     (case map_of attrs ''type'' of Some (PStr t) \<Rightarrow> True | _ \<Rightarrow> False)"
| "type_tagged (Reply chain nick ident quoted) =
     (\<forall>i \<in> set chain. type_tagged i)"
| "type_tagged _ = True"

text \<open>
  A bracketed placeholder: not empty, opening with \<open>[\<close> and closing with \<open>]\<close>.
  \<open>fragment_ok\<close> says that a dispatch returned one.
\<close>

definition bracketed :: "string \<Rightarrow> bool" where
  "bracketed s = (s \<noteq> [] \<and> hd s = CHR ''['' \<and> last s = CHR '']'')"

definition fragment_ok :: "pyerror + string \<Rightarrow> bool" where
  "fragment_ok r = (\<exists>s. r = Inr s \<and> bracketed s)"

section \<open>The interpreter's recursion limit\<close>










section \<open>An environment to run the model in\<close>

text \<open>
  One captioning client that knows one image, has no caption for a second and raises on
  every other; a parser that knows three payloads; \<^verbatim>\<open>lower\<close> on ASCII letters.
\<close>

definition ascii_lower :: "char \<Rightarrow> char" where
  "ascii_lower c =
     (case map_of (zip ''ABCDEFGHIJKLMNOPQRSTUVWXYZ'' ''abcdefghijklmnopqrstuvwxyz'') c of
        None \<Rightarrow> c | Some l \<Rightarrow> l)"

definition zh_cat :: string where
  "zh_cat = [CHR 0xE4, CHR 0xB8, CHR 0x80, CHR 0xE5, CHR 0x8F, CHR 0xAA, CHR 0xE7, CHR 0x8C, CHR 0xAB]"

definition example_env :: env where
  \<open>example_env =
     \<lparr> path_exists = (\<lambda>p. p = ''data/cat.png''),
       generate_image_caption =
         (\<lambda>r. if r = ''data/cat.png'' then Inr (Some zh_cat)
              else if r = ''http://x/blank.png'' then Inr None
              else Inl (OtherError ''timeout'')),
       json_loads =
         (\<lambda>s. if s = ''{"prompt":"draw a cat"}'' then Some (JObject [(''prompt'', JString ''draw a cat'')])
              else if s = ''{"app":"mini"}'' then Some (JObject [(''app'', JString ''mini'')])
              else if s = ''[1]'' then Some (JArray [JInt 1])
              else None),
       py_repr = (\<lambda>j. ''?''),
       str_lower = map ascii_lower,
       class_defined = (\<lambda>c. False),
       strftime_local = (\<lambda>t. if t = 86400 then Some ''1970-01-02 00:00:00'' else None) \<rparr>\<close>

text \<open>Two messages: one complete, one with no sender, no content and timestamp 0.\<close>

definition msg_ann :: astrbot_message where
  "msg_ann = \<lparr> sender = Some \<lparr> nickname = PStr ''Ann'', user_id = PStr ''1001'' \<rparr>,
               timestamp = Some 86400, message = [Plain ''hi''] \<rparr>"

definition msg_blank :: astrbot_message where
  "msg_blank = \<lparr> sender = None, timestamp = Some 0, message = [] \<rparr>"


section \<open>The message summarizer\<close>

text \<open>The accumulators of the loop only ever grow at the end.\<close>

lemma outline_loop_acc:
  "outline_loop e xs out calls =
     (case outline_loop e xs [] [] of Inl err \<Rightarrow> Inl err | Inr (s, cs) \<Rightarrow> Inr (out @ s, calls @ cs))"
proof (induction xs arbitrary: out calls)
  case Nil
  show ?case by simp
next
  case (Cons i rest)
  show ?case
  proof (cases "outline_segment e i")
    case (Inl err)
    then show ?thesis by simp
  next
    case (Inr r)
    obtain f cs where r: "r = (f, cs)" by (cases r)
    show ?thesis
      using Inr r Cons.IH [of "out @ f" "calls @ cs"] Cons.IH [of "f" "cs"]
      by (simp split: sum.splits prod.splits)
  qed
qed

lemma outline_message_list_Nil: "outline_message_list e [] = Inr ([], [])"
  by (simp add: outline_message_list_def)

lemma outline_message_list_Cons:
  "outline_message_list e (i # rest) =
     (case outline_segment e i of
        Inl err \<Rightarrow> Inl err
      | Inr (fragment, cs) \<Rightarrow>
          (case outline_message_list e rest of
             Inl err \<Rightarrow> Inl err
           | Inr (s, cs') \<Rightarrow> Inr (fragment @ s, cs @ cs')))"
proof (cases "outline_segment e i")
  case (Inl err)
  then show ?thesis by (simp add: outline_message_list_def)
next
  case (Inr r)
  obtain f cs where r: "r = (f, cs)" by (cases r)
  have "outline_message_list e (i # rest) = outline_loop e rest f cs"
    using Inr r by (simp add: outline_message_list_def)
  also have "\<dots> = (case outline_loop e rest [] [] of
      Inl err \<Rightarrow> Inl err | Inr (s, cs') \<Rightarrow> Inr (f @ s, cs @ cs'))"
    by (rule outline_loop_acc)
  finally show ?thesis using Inr r by (simp add: outline_message_list_def)
qed

lemma outline_message_list_of_fragments:
  "list_all2 (\<lambda>i f. outline_segment e i = Inr f) segs frags \<Longrightarrow>
     outline_message_list e segs = Inr (concat (map fst frags), concat (map snd frags))"
proof (induction segs frags rule: list_all2_induct)
  case Nil
  show ?case by (simp add: outline_message_list_Nil)
next
  case (Cons i segs f frags)
  then show ?case by (cases f) (simp add: outline_message_list_Cons)
qed

lemma outline_message_list_fragments:
  "outline_message_list e segs = Inr (out, calls) \<Longrightarrow>
     \<exists>frags. list_all2 (\<lambda>i f. outline_segment e i = Inr f) segs frags
        \<and> out = concat (map fst frags) \<and> calls = concat (map snd frags)"
proof (induction segs arbitrary: out calls)
  case Nil
  then show ?case by (simp add: outline_message_list_Nil)
next
  case (Cons i rest)
  from Cons.prems obtain f cs s cs' where
    seg: "outline_segment e i = Inr (f, cs)" and
    rest: "outline_message_list e rest = Inr (s, cs')" and
    out: "out = f @ s" "calls = cs @ cs'"
    by (auto simp: outline_message_list_Cons split: sum.splits prod.splits)
  from Cons.IH [OF rest] obtain frags where
    frags: "list_all2 (\<lambda>i f. outline_segment e i = Inr f) rest frags"
      "s = concat (map fst frags)" "cs' = concat (map snd frags)"
    by blast
  have "list_all2 (\<lambda>i f. outline_segment e i = Inr f) (i # rest) ((f, cs) # frags)"
    using seg frags(1) by simp
  moreover have "out = concat (map fst ((f, cs) # frags))" "calls = concat (map snd ((f, cs) # frags))"
    using out frags(2,3) by simp_all
  ultimately show ?case by blast
qed

lemma outline_plain_texts: "outline_message_list e (map Plain texts) = Inr (concat texts, [])"
  by (induction texts) (simp_all add: outline_message_list_Nil outline_message_list_Cons)

text \<open>
  C7. The summarizer produces one fragment per segment and concatenates the fragments in
  input order with nothing between them: when every segment yields a fragment the outline is
  their concatenation, and an outline that is returned is the concatenation of one fragment
  per segment. Plain texts \<open>a\<close>, \<open>b\<close>, \<open>c\<close> give \<open>abc\<close>, and the empty sequence gives
  the empty string.
\<close>

theorem outline_concatenates_in_order:
  "(list_all2 (\<lambda>i f. outline_segment e i = Inr f) segs frags \<longrightarrow>
      outline_message_list e segs = Inr (concat (map fst frags), concat (map snd frags)))
   \<and> (outline_message_list e segs = Inr (out, calls) \<longrightarrow>
      (\<exists>fs. list_all2 (\<lambda>i f. outline_segment e i = Inr f) segs fs
         \<and> out = concat (map fst fs) \<and> calls = concat (map snd fs)))
   \<and> outline_message_list e (map Plain texts) = Inr (concat texts, [])
   \<and> outline_message_list e [] = Inr ([], [])"
  using outline_message_list_of_fragments [of e segs frags]
    outline_message_list_fragments [of e segs out calls] outline_plain_texts [of e texts]
    outline_message_list_Nil [of e]
  by blast

theorem outline_concatenates_in_order_witness:
  "list_all2 (\<lambda>i f. outline_segment example_env i = Inr f)
     [Plain ''a'', Plain ''b'', Plain ''c''] [(''a'', []), (''b'', []), (''c'', [])]
   \<and> outline_message_list example_env [Plain ''a'', Plain ''b'', Plain ''c''] = Inr (''abc'', [])"
proof -
  let ?fs = "[(''a'', []), (''b'', []), (''c'', [])] :: (string \<times> string list) list"
  have h: "list_all2 (\<lambda>i f. outline_segment example_env i = Inr f)
     [Plain ''a'', Plain ''b'', Plain ''c''] ?fs"
    by simp
  have "outline_message_list example_env [Plain ''a'', Plain ''b'', Plain ''c'']
      = Inr (concat (map fst ?fs), concat (map snd ?fs))"
    by (rule mp [OF conjunct1 [OF outline_concatenates_in_order] h])
  then show ?thesis using h by simp
qed

section \<open>Images\<close>

text \<open>
  C2. An image whose \<^verbatim>\<open>file\<close> reference starts with \<^verbatim>\<open>file:///\<close> has the prefix
  stripped; when the remaining path does not exist, the fragment is exactly the
  file-missing placeholder and the captioning client is not called.
\<close>

theorem missing_local_image_not_captioned:
  assumes "\<not> path_exists e p"
  shows "outline_segment e (ImageSeg (PStr (''file:///'' @ p)) url)
           = Inr (''['' @ zh_image @ '': '' @ zh_file_missing @ '']'', [])
       \<and> outline_message_list e [ImageSeg (PStr (''file:///'' @ p)) url]
           = Inr (''['' @ zh_image @ '': '' @ zh_file_missing @ '']'', [])"
  using assms
  by (simp add: outline_message_list_Cons outline_message_list_Nil outline_image_def
      startswith_def image_missing_def)

theorem missing_local_image_not_captioned_witness:
  "\<not> path_exists example_env ''data/gone.png''
   \<and> outline_message_list example_env [ImageSeg (PStr ''file:///data/gone.png'') PNone]
       = Inr (''['' @ zh_image @ '': '' @ zh_file_missing @ '']'', [])"
  using missing_local_image_not_captioned [of example_env "''data/gone.png''" PNone]
  by (simp add: example_env_def)

text \<open>
  C3. An image with a resolvable reference \<open>r\<close> (the \<^verbatim>\<open>file\<close> field, else the
  \<^verbatim>\<open>url\<close> field, with an existing path behind a \<^verbatim>\<open>file:///\<close> prefix): a non-empty
  caption \<open>c\<close> gives the image placeholder with \<open>c\<close>; an empty or absent caption gives the
  bare image placeholder; a client that raises gives the bare placeholder too, and the
  outliner returns normally.
\<close>

theorem image_caption_fragment:
  assumes "image_ref = (if py_truthy file then file else url)"
    and "image_ref = PStr s" and "s \<noteq> []"
    and "startswith s ''file:///'' \<longrightarrow> path_exists e (drop 8 s)"
    and "r = (if startswith s ''file:///'' then drop 8 s else s)"
  shows "(generate_image_caption e r = Inr (Some c) \<and> c \<noteq> [] \<longrightarrow>
            outline_segment e (ImageSeg file url) = Inr (''['' @ zh_image @ '': '' @ c @ '']'', [r]))
       \<and> (generate_image_caption e r = Inr (Some []) \<or> generate_image_caption e r = Inr None \<longrightarrow>
            outline_segment e (ImageSeg file url) = Inr (''['' @ zh_image @ '']'', [r]))
       \<and> (generate_image_caption e r = Inl err \<longrightarrow>
            outline_segment e (ImageSeg file url) = Inr (''['' @ zh_image @ '']'', [r]))"
  using assms
  by (auto simp: outline_image_def caption_fragment_def image_plain_def Let_def)

theorem image_caption_fragment_witness:
  "outline_segment example_env (ImageSeg (PStr ''file:///data/cat.png'') PNone)
     = Inr (''['' @ zh_image @ '': '' @ zh_cat @ '']'', [''data/cat.png''])
   \<and> outline_segment example_env (ImageSeg PNone (PStr ''http://x/blank.png''))
     = Inr (''['' @ zh_image @ '']'', [''http://x/blank.png''])
   \<and> outline_segment example_env (ImageSeg (PStr '''') (PStr ''http://x/slow.png''))
     = Inr (''['' @ zh_image @ '']'', [''http://x/slow.png''])"
  using
    image_caption_fragment [of "PStr ''file:///data/cat.png''" "PStr ''file:///data/cat.png''" PNone
      "''file:///data/cat.png''" example_env "''data/cat.png''" zh_cat "OtherError ''timeout''"]
    image_caption_fragment [of "PStr ''http://x/blank.png''" PNone "PStr ''http://x/blank.png''"
      "''http://x/blank.png''" example_env "''http://x/blank.png''" zh_cat "OtherError ''timeout''"]
    image_caption_fragment [of "PStr ''http://x/slow.png''" "PStr ''''" "PStr ''http://x/slow.png''"
      "''http://x/slow.png''" example_env "''http://x/slow.png''" zh_cat "OtherError ''timeout''"]
  by (simp add: example_env_def startswith_def zh_cat_def)

section \<open>Shares, locations and music cards\<close>

text \<open>
  A share is not rendered as \<open>[kind:title(content)]\<close>: the source puts the title between
  the book-title marks and appends the content with no parentheses.
\<close>

theorem share_fragment_counterexample:
  "outline_segment example_env (Share (PStr ''t'') (PStr ''c''))
     = Inr (''['' @ zh_share @ '':'' @ zh_lquote @ ''t'' @ zh_rquote @ ''c]'', [])
   \<and> outline_segment example_env (Share (PStr ''t'') (PStr ''c''))
     \<noteq> Inr (''['' @ zh_share @ '':t(c)]'', [])"
  by (simp add: zh_lquote_def)

text \<open>
  C4, as the code has it. A location and a music card render as \<open>[kind:title(content)]\<close>
  when the content is truthy and as \<open>[kind:title]\<close> otherwise. A share renders as
  \<open>[kind:\<close> the title between book-title marks, then the content when it is truthy,
  then \<open>]\<close>.
\<close>

theorem share_location_music_fragments:
  "outline_segment e (Location title content)
     = Inr (''['' @ zh_location @ '':'' @ py_format title
            @ (if py_truthy content then ''('' @ py_format content @ '')'' else []) @ '']'', [])
   \<and> outline_segment e (Music title content)
     = Inr (''['' @ zh_music @ '':'' @ py_format title
            @ (if py_truthy content then ''('' @ py_format content @ '')'' else []) @ '']'', [])
   \<and> outline_segment e (Share title content)
     = Inr (''['' @ zh_share @ '':'' @ zh_lquote @ py_format title @ zh_rquote
            @ (if py_truthy content then py_format content else []) @ '']'', [])"
  by (simp add: opt_paren_def)

theorem share_location_music_fragments_witness:
  "outline_segment example_env (Location (PStr ''Park'') (PStr ''gate 2''))
     = Inr (''['' @ zh_location @ '':Park(gate 2)]'', [])
   \<and> outline_segment example_env (Music (PStr ''Song'') PNone)
     = Inr (''['' @ zh_music @ '':Song]'', [])
   \<and> outline_segment example_env (Share (PStr ''News'') (PStr ''today''))
     = Inr (''['' @ zh_share @ '':'' @ zh_lquote @ ''News'' @ zh_rquote @ ''today]'', [])"
  using share_location_music_fragments [of example_env "PStr ''Park''" "PStr ''gate 2''"]
    share_location_music_fragments [of example_env "PStr ''Song''" PNone]
    share_location_music_fragments [of example_env "PStr ''News''" "PStr ''today''"]
  by simp

section \<open>JSON payloads\<close>

lemma json_try_not_object:
  assumes "json_loads e raw = Some j" and "\<forall>kvs. j \<noteq> JObject kvs"
  shows "json_try e raw = Inr json_generic \<or> (\<exists>err. json_try e raw = Inl err)"
  using assms by (cases j) (simp_all add: json_try_def elif_def)

lemma json_in_object: "json_in k (JObject kvs) = Inr (map_of kvs k \<noteq> None)"
  by (simp add: map_of_eq_None_iff)

lemma json_segment_dispatch:
  assumes "map_of attrs ''type'' = Some (PStr t)" and "str_lower e t = ''json''"
    and "cls \<notin> set [''RPS'', ''Dice'', ''Shake'', ''Anonymous'', ''RedBag'', ''Poke'',
                      ''Forward'', ''Node'', ''Nodes'', ''Xml'']"
  shows "outline_other e cls attrs = Inr (outline_json e attrs)"
  using assms by (simp add: outline_other_def safe_isinstance_def elif_def type_mapping_def)

text \<open>
  C5. A segment tagged \<^verbatim>\<open>json\<close> whose \<^verbatim>\<open>data\<close> is a string: when parsing raises, or
  the parsed value is not an object, the fragment is the generic JSON placeholder and
  nothing is raised; an object with a \<^verbatim>\<open>prompt\<close> key gives the card placeholder with its
  value, whether or not \<^verbatim>\<open>app\<close> is present too; otherwise an \<^verbatim>\<open>app\<close> key gives the
  mini-program placeholder; otherwise the generic placeholder. A string value is inserted
  as it is.
\<close>

theorem json_payload_fragment:
  assumes "map_of attrs ''type'' = Some (PStr t)" and "str_lower e t = ''json''"
    and "cls \<notin> set [''RPS'', ''Dice'', ''Shake'', ''Anonymous'', ''RedBag'', ''Poke'',
                      ''Forward'', ''Node'', ''Nodes'', ''Xml'']"
    and "map_of attrs ''data'' = Some (PStr raw)"
  shows "(json_loads e raw = None \<longrightarrow>
            outline_segment e (Other cls attrs) = Inr (json_generic, []))
       \<and> (json_loads e raw = Some j \<and> (\<forall>kvs. j \<noteq> JObject kvs) \<longrightarrow>
            outline_segment e (Other cls attrs) = Inr (json_generic, []))
       \<and> (json_loads e raw = Some (JObject kvs) \<and> map_of kvs ''prompt'' = Some v \<longrightarrow>
            outline_segment e (Other cls attrs)
              = Inr (''[JSON'' @ zh_card @ '':'' @ json_str e v @ '']'', []))
       \<and> (json_loads e raw = Some (JObject kvs) \<and> map_of kvs ''prompt'' = None
            \<and> map_of kvs ''app'' = Some v \<longrightarrow>
            outline_segment e (Other cls attrs)
              = Inr (''['' @ zh_miniapp @ '':'' @ json_str e v @ '']'', []))
       \<and> (json_loads e raw = Some (JObject kvs) \<and> map_of kvs ''prompt'' = None
            \<and> map_of kvs ''app'' = None \<longrightarrow>
            outline_segment e (Other cls attrs) = Inr (json_generic, []))
       \<and> json_str e (JString p) = p"
proof -
  have seg: "outline_segment e (Other cls attrs) = Inr (outline_json e attrs, [])"
    using json_segment_dispatch [OF assms(1,2,3)] by simp
  have fails: "outline_json e attrs = json_generic" if "json_loads e raw = None"
    using that assms(4) by (simp add: outline_json_def json_try_def)
  have other: "outline_json e attrs = json_generic"
    if "json_loads e raw = Some j" "\<forall>kvs. j \<noteq> JObject kvs"
    using json_try_not_object [OF that] assms(4) by (auto simp: outline_json_def)
  have obj: "outline_json e attrs =
      (case map_of kvs ''prompt'' of
         Some v \<Rightarrow> ''[JSON'' @ zh_card @ '':'' @ json_str e v @ '']''
       | None \<Rightarrow>
          (case map_of kvs ''app'' of
             Some v \<Rightarrow> ''['' @ zh_miniapp @ '':'' @ json_str e v @ '']''
           | None \<Rightarrow> json_generic))"
    if "json_loads e raw = Some (JObject kvs)"
    using that assms(4)
    by (simp add: outline_json_def json_try_def elif_def json_in_object
        del: json_in.simps split: option.splits)
  show ?thesis
    using seg fails other obj by (simp add: json_str_def)
qed

theorem json_payload_fragment_witness:
  \<open>outline_segment example_env
      (Other ''Json'' [(''type'', PStr ''Json''), (''data'', PStr ''{"prompt":"draw a cat"}'')])
     = Inr (''[JSON'' @ zh_card @ '':draw a cat]'', [])
   \<and> outline_segment example_env
      (Other ''Json'' [(''type'', PStr ''Json''), (''data'', PStr ''{"app":"mini"}'')])
     = Inr (''['' @ zh_miniapp @ '':mini]'', [])
   \<and> outline_segment example_env
      (Other ''Json'' [(''type'', PStr ''Json''), (''data'', PStr ''not json'')])
     = Inr (json_generic, [])
   \<and> outline_segment example_env
      (Other ''Json'' [(''type'', PStr ''Json''), (''data'', PStr ''[1]'')])
     = Inr (json_generic, [])\<close>
proof -
  have low: "str_lower example_env ''Json'' = ''json''"
    by (simp add: example_env_def ascii_lower_def)
  have cls: "''Json'' \<notin> set [''RPS'', ''Dice'', ''Shake'', ''Anonymous'', ''RedBag'', ''Poke'',
                      ''Forward'', ''Node'', ''Nodes'', ''Xml'']"
    by simp
  have ty: "map_of [(''type'', PStr ''Json''), (''data'', PStr d)] ''type'' = Some (PStr ''Json'')"
    and da: "map_of [(''type'', PStr ''Json''), (''data'', PStr d)] ''data'' = Some (PStr d)" for d
    by simp_all
  note t = json_payload_fragment [OF ty low cls da]
  have p: \<open>json_loads example_env ''{"prompt":"draw a cat"}''
      = Some (JObject [(''prompt'', JString ''draw a cat'')])\<close>
    and a: \<open>json_loads example_env ''{"app":"mini"}'' = Some (JObject [(''app'', JString ''mini'')])\<close>
    and n: "json_loads example_env ''not json'' = None"
    and l: "json_loads example_env ''[1]'' = Some (JArray [JInt 1])"
    by (simp_all add: example_env_def)
  show ?thesis
    using t [of _ "JArray [JInt 1]" "[(''prompt'', JString ''draw a cat'')]" "JString ''draw a cat''"]
      t [of _ "JArray [JInt 1]" "[(''app'', JString ''mini'')]" "JString ''mini''"]
      p a n l
    by (simp add: json_str_def)
qed

section \<open>Quoted replies\<close>

text \<open>
  C8. A quoted reply is outlined by this precedence: a non-empty quoted chain is outlined
  by the same algorithm and wrapped with the sender label (and a chain that fails makes the
  reply fail); else a truthy quoted text is wrapped with the sender label; else a truthy
  nickname or id gives the label alone; else the generic reply placeholder. The label is
  \<open>nickname(id)\<close> when the nickname is truthy and the bare id otherwise.
\<close>

theorem quoted_reply_precedence:
  assumes "label = (if py_truthy nick then py_format nick @ ''('' @ py_format ident @ '')''
                    else py_format ident)"
  shows "(chain \<noteq> [] \<and> outline_message_list e chain = Inr (content, calls) \<longrightarrow>
            outline_segment e (Reply chain nick ident quoted)
              = Inr (''['' @ zh_reply @ ''('' @ label @ '': '' @ content @ '')]'', calls))
       \<and> (chain \<noteq> [] \<and> outline_message_list e chain = Inl err \<longrightarrow>
            outline_segment e (Reply chain nick ident quoted) = Inl err)
       \<and> (chain = [] \<and> py_truthy quoted \<longrightarrow>
            outline_segment e (Reply chain nick ident quoted)
              = Inr (''['' @ zh_reply @ ''('' @ label @ '': '' @ py_format quoted @ '')]'', []))
       \<and> (chain = [] \<and> \<not> py_truthy quoted \<and> (py_truthy nick \<or> py_truthy ident) \<longrightarrow>
            outline_segment e (Reply chain nick ident quoted)
              = Inr (''['' @ zh_reply @ ''('' @ label @ '')]'', []))
       \<and> (chain = [] \<and> \<not> py_truthy quoted \<and> \<not> py_truthy nick \<and> \<not> py_truthy ident \<longrightarrow>
            outline_segment e (Reply chain nick ident quoted)
              = Inr (''['' @ zh_reply @ zh_message @ '']'', []))"
  using assms
  by (simp add: outline_message_list_def sender_info_def reply_generic_def)

theorem quoted_reply_precedence_witness:
  "outline_segment example_env
      (Reply [ImageSeg (PStr ''file:///data/cat.png'') PNone] (PStr ''Bob'') (PInt 7) (PStr ''seen''))
     = Inr (''['' @ zh_reply @ ''(Bob(7): ['' @ zh_image @ '': '' @ zh_cat @ ''])]'', [''data/cat.png''])
   \<and> outline_segment example_env (Reply [] PNone (PStr ''42'') (PStr ''hello''))
     = Inr (''['' @ zh_reply @ ''(42: hello)]'', [])
   \<and> outline_segment example_env (Reply [] (PStr ''Bob'') (PInt 7) PNone)
     = Inr (''['' @ zh_reply @ ''(Bob(7))]'', [])
   \<and> outline_segment example_env (Reply [] PNone PNone PNone)
     = Inr (''['' @ zh_reply @ zh_message @ '']'', [])
   \<and> outline_segment example_env (Reply [Other ''Widget'' []] PNone PNone PNone)
     = Inl AttributeError"
proof -
  have img: "outline_message_list example_env [ImageSeg (PStr ''file:///data/cat.png'') PNone]
      = Inr (''['' @ zh_image @ '': '' @ zh_cat @ '']'', [''data/cat.png''])"
    by (simp add: outline_message_list_Cons outline_message_list_Nil outline_image_def
        caption_fragment_def startswith_def example_env_def Let_def zh_cat_def)
  have bad: "outline_message_list example_env [Other ''Widget'' []] = Inl AttributeError"
    by (simp add: outline_message_list_Cons outline_other_def safe_isinstance_def elif_def
        example_env_def)
  note t = quoted_reply_precedence [OF refl, of _ example_env]
  show ?thesis
    using t [of "[ImageSeg (PStr ''file:///data/cat.png'') PNone]"
              "''['' @ zh_image @ '': '' @ zh_cat @ '']''" "[''data/cat.png'']"
              "PStr ''Bob''" "PInt 7" "PStr ''seen''" AttributeError]
      t [of "[]" "[]" "[]" PNone "PStr ''42''" "PStr ''hello''" AttributeError]
      t [of "[]" "[]" "[]" "PStr ''Bob''" "PInt 7" PNone AttributeError]
      t [of "[]" "[]" "[]" PNone PNone PNone AttributeError]
      t [of "[Other ''Widget'' []]" "[]" "[]" PNone PNone PNone AttributeError]
      img bad
    by (simp add: str_of_int_def str_of_nat.simps digit_char_def)
qed

section \<open>Properties of the history formatter\<close>

text \<open>
  Messages that agree on sender, content and rendered time format alike, wherever they
  stand in the history.
\<close>

lemma message_text_cong:
  assumes "sender a = sender b" and "send_time e a = send_time e b"
  shows "message_text e a c = message_text e b c"
  using assms by (simp add: message_text_def sender_name_def sender_id_def)

lemma history_loop_cong:
  assumes "list_all2 (\<lambda>a b. message a = message b \<and> sender a = sender b
             \<and> send_time e a = send_time e b) xs ys"
  shows "history_loop e xs idx n formatted calls = history_loop e ys idx n formatted calls"
  using assms
proof (induction xs ys arbitrary: idx formatted calls rule: list_all2_induct)
  case Nil
  show ?case by simp
next
  case (Cons a xs b ys)
  have "message_text e a c = message_text e b c" for c
    by (rule message_text_cong) (use Cons.hyps(1) in simp_all)
  then show ?case using Cons.hyps(1) Cons.IH by (simp split: sum.splits prod.splits)
qed

lemma format_history_cong:
  assumes "list_all2 (\<lambda>a b. message a = message b \<and> sender a = sender b
             \<and> send_time e a = send_time e b) xs ys"
  shows "format_history_for_llm e xs max_messages = format_history_for_llm e ys max_messages"
proof -
  have len: "length xs = length ys" using assms by (rule list_all2_lengthD)
  have nil: "xs = [] \<longleftrightarrow> ys = []" using len by auto
  have sl: "list_all2 (\<lambda>a b. message a = message b \<and> sender a = sender b
             \<and> send_time e a = send_time e b) (py_slice_from xs j) (py_slice_from ys j)" for j
    using assms len by (simp add: py_slice_from_def list_all2_dropI)
  have lsl: "length (py_slice_from xs j) = length (py_slice_from ys j)" for j
    using sl by (rule list_all2_lengthD)
  show ?thesis
    using nil len lsl history_loop_cong [OF sl] history_loop_cong [OF assms]
    by (simp add: format_history_for_llm_def Let_def)
qed

lemma send_time_zero: "send_time e (msg\<lparr>timestamp := Some 0\<rparr>) = zh_unknown_time"
  by (simp add: send_time_def)

lemma send_time_absent: "send_time e (msg\<lparr>timestamp := None\<rparr>) = zh_unknown_time"
  by (simp add: send_time_def)

lemma sender_name_timestamp: "sender_name (msg\<lparr>timestamp := t\<rparr>) = sender_name msg"
  by (simp add: sender_name_def)

lemma sender_id_timestamp: "sender_id (msg\<lparr>timestamp := t\<rparr>) = sender_id msg"
  by (simp add: sender_id_def)

text \<open>
  C10. A message whose timestamp is 0 has the unknown-time placeholder as its time line,
  and the whole history formats exactly as if that timestamp were absent.
\<close>

theorem zero_timestamp_rendered_as_unknown:
  "send_time e (msg\<lparr>timestamp := Some 0\<rparr>) = zh_unknown_time
   \<and> send_time e (msg\<lparr>timestamp := None\<rparr>) = zh_unknown_time
   \<and> message_text e (msg\<lparr>timestamp := Some 0\<rparr>) content
       = zh_sender @ '': '' @ sender_name msg @ '' (ID: '' @ sender_id msg @ '')'' @ [CHR 0x0A]
         @ zh_time @ '': '' @ zh_unknown_time @ [CHR 0x0A] @ zh_content @ '': '' @ content
   \<and> format_history_for_llm e (earlier @ msg\<lparr>timestamp := Some 0\<rparr> # later) max_messages
       = format_history_for_llm e (earlier @ msg\<lparr>timestamp := None\<rparr> # later) max_messages"
proof -
  let ?same = "\<lambda>a b. message a = message b \<and> sender a = sender b
          \<and> send_time e a = send_time e b"
  have same: "list_all2 ?same ms ms" for ms
    by (rule list_all2_refl) simp
  have this_one: "?same (msg\<lparr>timestamp := Some 0\<rparr>) (msg\<lparr>timestamp := None\<rparr>)"
    by (simp add: send_time_zero send_time_absent)
  have tail: "list_all2 ?same (msg\<lparr>timestamp := Some 0\<rparr> # later) (msg\<lparr>timestamp := None\<rparr> # later)"
    using this_one same [of later] by simp
  have "list_all2 ?same (earlier @ msg\<lparr>timestamp := Some 0\<rparr> # later)
          (earlier @ msg\<lparr>timestamp := None\<rparr> # later)"
    by (rule list_all2_appendI [OF same tail])
  from format_history_cong [OF this, of max_messages]
  have hist: "format_history_for_llm e (earlier @ msg\<lparr>timestamp := Some 0\<rparr> # later) max_messages
       = format_history_for_llm e (earlier @ msg\<lparr>timestamp := None\<rparr> # later) max_messages" .
  have block: "message_text e (msg\<lparr>timestamp := Some 0\<rparr>) content
       = zh_sender @ '': '' @ sender_name msg @ '' (ID: '' @ sender_id msg @ '')'' @ [CHR 0x0A]
         @ zh_time @ '': '' @ zh_unknown_time @ [CHR 0x0A] @ zh_content @ '': '' @ content"
    unfolding message_text_def
    by (simp only: send_time_zero sender_name_timestamp sender_id_timestamp)
  show ?thesis
    by (intro conjI send_time_zero send_time_absent block hist)
qed

theorem zero_timestamp_rendered_as_unknown_witness:
  "format_history_for_llm example_env [msg_blank] 20
     = Inr (zh_sender @ '': '' @ zh_unknown_user @ '' (ID: unknown)'' @ [CHR 0x0A]
            @ zh_time @ '': '' @ zh_unknown_time @ [CHR 0x0A] @ zh_content @ '': '', [])
   \<and> format_history_for_llm example_env [msg_blank] 20
     = format_history_for_llm example_env [msg_blank\<lparr>timestamp := None\<rparr>] 20"
  using zero_timestamp_rendered_as_unknown [of example_env msg_blank "[]" "[]" "[]" 20]
  by (simp add: msg_blank_def format_history_for_llm_def message_text_def sender_name_def
      sender_id_def send_time_def)

text \<open>
  For a positive \<^verbatim>\<open>max_messages\<close> the formatter keeps the last \<^verbatim>\<open>max_messages\<close>
  messages in their order, renders one block for each and puts one divider between each
  two blocks; an empty history gives the empty string.
\<close>

lemma history_loop_blocks:
  assumes "list_all2 (\<lambda>m r. (if message m \<noteq> [] then outline_message_list e (message m)
                               else Inr ([], [])) = Inr r) ms rs"
    and "n = idx + length ms"
  shows "history_loop e ms idx n formatted calls =
           Inr (formatted @ join_blocks (map (\<lambda>(m, r). message_text e m (fst r)) (zip ms rs)),
                calls @ concat (map snd rs))"
  using assms
proof (induction ms rs arbitrary: idx formatted calls rule: list_all2_induct)
  case Nil
  show ?case by simp
next
  case (Cons m ms r rs)
  obtain c cs where r: "r = (c, cs)" by (cases r)
  have len: "length ms = length rs" using Cons.hyps(2) by (rule list_all2_lengthD)
  have n: "n = Suc idx + length ms" using Cons.prems by simp
  have sep: "(int idx < int n - 1) = (ms \<noteq> [])" using n by auto
  note ih = Cons.IH [OF n, of "formatted @ message_text e m c @ (if ms \<noteq> [] then divider else [])"
      "calls @ cs"]
  show ?case
  proof (cases ms)
    case Nil
    then have "rs = []" using len by simp
    then show ?thesis using Cons.hyps(1) r Nil sep by simp
  next
    case (Cons m' ms')
    then obtain r' rs' where rs: "rs = r' # rs'" using len by (cases rs) simp_all
    show ?thesis
      using Cons.hyps(1) r ih sep Cons rs by simp
  qed
qed

lemma format_history_positive_max:
  assumes "0 < max_messages"
    and "kept = drop (length history - nat max_messages) history"
    and "list_all2 (\<lambda>m r. (if message m \<noteq> [] then outline_message_list e (message m)
                               else Inr ([], [])) = Inr r) kept rs"
  shows "format_history_for_llm e history max_messages =
           Inr (join_blocks (map (\<lambda>(m, r). message_text e m (fst r)) (zip kept rs)),
                concat (map snd rs))"
proof (cases "history = []")
  case True
  then show ?thesis using assms(2,3) by (simp add: format_history_for_llm_def)
next
  case False
  have kept: "(if int (length history) > max_messages
        then py_slice_from history (- max_messages) else history) = kept"
    using assms(1,2) by (auto simp: py_slice_from_def nat_diff_distrib intro!: arg_cong2 [of _ _ _ _ drop])
  show ?thesis
    using False history_loop_blocks [OF assms(3), of "length kept" 0 "[]" "[]"]
    by (simp add: format_history_for_llm_def kept Let_def)
qed

text \<open>
  C6, where the code departs from it. With \<^verbatim>\<open>max_messages = 0\<close> the slice
  \<^verbatim>\<open>history_messages[-0:]\<close> is the whole list: both messages are kept, where the last
  0 messages would give the empty string. With \<^verbatim>\<open>max_messages = -1\<close> the slice
  \<^verbatim>\<open>history_messages[1:]\<close> drops one message and keeps the rest.
\<close>

theorem history_max_zero_keeps_everything:
  "format_history_for_llm example_env [msg_ann, msg_blank] 0
     = Inr (message_text example_env msg_ann ''hi'' @ divider @ message_text example_env msg_blank [], [])
   \<and> format_history_for_llm example_env [msg_ann, msg_blank] 0 \<noteq> Inr ([], [])
   \<and> format_history_for_llm example_env [msg_ann, msg_blank] (- 1)
     = Inr (message_text example_env msg_blank [], [])"
  by (simp add: format_history_for_llm_def py_slice_from_def msg_ann_def msg_blank_def
      outline_message_list_Cons outline_message_list_Nil message_text_def divider_def)

section \<open>Every tagged segment has a bracketed fragment\<close>

text \<open>
  With a string \<^verbatim>\<open>type\<close> attribute no test of the chain raises, and every arm of the
  chain returns a bracketed fragment.
\<close>

lemma json_try_bracketed: "json_try e raw = Inr s \<Longrightarrow> bracketed s"
  by (auto simp: json_try_def elif_def json_generic_def bracketed_def
      split: option.splits sum.splits if_splits)

lemma outline_json_bracketed: "bracketed (outline_json e attrs)"
  by (auto simp: outline_json_def json_generic_def bracketed_def
      dest: json_try_bracketed split: option.splits pyval.splits sum.splits)

lemma safe_isinstance_tagged:
  "map_of attrs ''type'' = Some (PStr t) \<Longrightarrow>
     safe_isinstance e cls attrs cn =
       Inr (map_of type_mapping (str_lower e t) = Some cn \<or> (class_defined e cn \<and> cls = cn))"
  by (simp add: safe_isinstance_def)

lemma elif_Inr: "elif (Inr b) t f = (if b then t else f)"
  by (simp add: elif_def)

lemma fragment_ok_if: "fragment_ok t \<Longrightarrow> fragment_ok f \<Longrightarrow> fragment_ok (if b then t else f)"
  by simp

lemma outline_other_tagged:
  assumes "map_of attrs ''type'' = Some (PStr t)"
  shows "fragment_ok (outline_other e cls attrs)"
  unfolding outline_other_def safe_isinstance_tagged [OF assms] elif_Inr
  by (intro fragment_ok_if)
     (simp_all add: assms fragment_ok_def bracketed_def outline_json_bracketed [unfolded bracketed_def])

lemma outline_other_catch_all:
  assumes "map_of attrs ''type'' = Some (PStr t)"
    and "map_of type_mapping (str_lower e t) = None"
    and "cls \<notin> set (map snd type_mapping)"
  shows "outline_other e cls attrs = Inr (''['' @ t @ '']'')"
  using assms(3)
  unfolding outline_other_def safe_isinstance_tagged [OF assms(1)] elif_Inr assms(2)
  by (simp add: type_mapping_def assms(1))

lemma caption_fragment_bracketed: "bracketed (fst (caption_fragment e r))"
proof (cases "generate_image_caption e r")
  case (Inl err)
  then show ?thesis by (simp add: caption_fragment_def image_plain_def bracketed_def)
next
  case (Inr caption)
  then show ?thesis
    by (cases caption) (simp_all add: caption_fragment_def image_plain_def bracketed_def)
qed

lemma outline_image_bracketed: "bracketed (fst (outline_image e file url))"
proof -
  have plain: "bracketed image_plain" and missing: "bracketed image_missing"
    by (simp_all add: image_plain_def image_missing_def bracketed_def)
  show ?thesis
  proof (cases "if py_truthy file then file else url")
    case PNone
    then show ?thesis using plain by (simp add: outline_image_def)
  next
    case (PStr s)
    then show ?thesis
      using plain missing caption_fragment_bracketed [of e s]
        caption_fragment_bracketed [of e "drop 8 s"]
      by (simp add: outline_image_def Let_def)
  next
    case (PInt n)
    then show ?thesis using plain by (simp add: outline_image_def)
  qed
qed

lemma outline_message_list_total:
  "(\<forall>i \<in> set xs. \<exists>r. outline_segment e i = Inr r) \<Longrightarrow> \<exists>r. outline_message_list e xs = Inr r"
proof (induction xs)
  case Nil
  show ?case by (simp add: outline_message_list_Nil)
next
  case (Cons i rest)
  then obtain f cs s cs' where "outline_segment e i = Inr (f, cs)"
    and "outline_message_list e rest = Inr (s, cs')"
    by fastforce
  then show ?case by (simp add: outline_message_list_Cons)
qed

lemma outline_segment_total:
  "type_tagged i \<Longrightarrow> \<exists>s calls. outline_segment e i = Inr (s, calls)"
proof (induction i)
  case (Reply chain nick ident quoted)
  have "\<forall>i \<in> set chain. \<exists>r. outline_segment e i = Inr r"
    using Reply by auto
  then obtain s cs where "outline_message_list e chain = Inr (s, cs)"
    using outline_message_list_total [of chain e] by fastforce
  then show ?case by (simp add: outline_message_list_def)
next
  case (Other cls attrs)
  then obtain t where "map_of attrs ''type'' = Some (PStr t)"
    by (auto split: option.splits pyval.splits)
  from outline_other_tagged [OF this, of e cls] show ?case
    by (auto simp: fragment_ok_def)
next
  case (ImageSeg persisted url)
  show ?case by (cases "outline_image e persisted url") simp
qed simp_all

lemma tagged_segment_fragment:
  assumes "type_tagged i" and "\<forall>text. i \<noteq> Plain text"
  shows "\<exists>s calls. outline_segment e i = Inr (s, calls) \<and> bracketed s"
proof (cases i)
  case (Plain str)
  then show ?thesis using assms(2) by simp
next
  case (ImageSeg persisted url)
  then show ?thesis
    using outline_image_bracketed [of e persisted url]
    by (cases "outline_image e persisted url") simp
next
  case (Reply chain nick ident quoted)
  have "\<forall>i \<in> set chain. \<exists>r. outline_segment e i = Inr r"
    using assms(1) Reply outline_segment_total [of _ e] by fastforce
  then obtain s cs where "outline_message_list e chain = Inr (s, cs)"
    using outline_message_list_total [of chain e] by fastforce
  then show ?thesis
    using Reply by (simp add: outline_message_list_def bracketed_def reply_generic_def)
next
  case (Other cls attrs)
  then obtain t where "map_of attrs ''type'' = Some (PStr t)"
    using assms(1) by (auto split: option.splits pyval.splits)
  from outline_other_tagged [OF this, of e cls] show ?thesis
    using Other by (auto simp: fragment_ok_def)
qed (simp_all add: bracketed_def)

text \<open>
  The claim C1 fails on the code at two segments: a plain text that is empty has the empty
  string as its fragment, which is no bracketed placeholder, and an object of an unknown
  class that has no \<^verbatim>\<open>type\<close> attribute makes the catch-all arm raise.
\<close>

theorem segment_outline_counterexample:
  "outline_segment example_env (Plain []) = Inr ([], [])
   \<and> outline_segment example_env (Other ''Widget'' []) = Inl AttributeError"
  by (simp add: outline_other_def safe_isinstance_def elif_def example_env_def)

text \<open>
  C1, as the code has it. For every segment whose objects of no named class carry a string
  \<^verbatim>\<open>type\<close> attribute, also inside quoted chains, and that is not a plain text, the
  outliner returns a bracketed placeholder. A segment of no recognised class and tag is
  rendered by the catch-all arm as its tag in brackets. A plain text is rendered as its
  text, with no brackets.
\<close>

theorem segment_outline_bracketed:
  "(type_tagged i \<and> (\<forall>text. i \<noteq> Plain text) \<longrightarrow>
      (\<exists>s calls. outline_segment e i = Inr (s, calls) \<and> bracketed s))
   \<and> (map_of attrs ''type'' = Some (PStr t) \<and> map_of type_mapping (str_lower e t) = None
        \<and> cls \<notin> set (map snd type_mapping) \<longrightarrow>
      outline_segment e (Other cls attrs) = Inr (''['' @ t @ '']'', []))
   \<and> outline_segment e (Plain text) = Inr (text, [])"
  using tagged_segment_fragment [of i e] outline_other_catch_all [of attrs t e cls]
  by simp

theorem segment_outline_bracketed_witness:
  "type_tagged (Other ''Widget'' [(''type'', PStr ''widget'')])
   \<and> outline_segment example_env (Other ''Widget'' [(''type'', PStr ''widget'')])
       = Inr (''[widget]'', [])
   \<and> bracketed ''[widget]''
   \<and> (\<exists>s calls. outline_segment example_env
          (Reply [Other ''Json'' [(''type'', PStr ''Json'')]] PNone (PInt 7) PNone) = Inr (s, calls)
        \<and> bracketed s)"
proof -
  have low: "map_of type_mapping (str_lower example_env ''widget'') = None"
    by (simp add: example_env_def ascii_lower_def type_mapping_def)
  have cls: "''Widget'' \<notin> set (map snd type_mapping)"
    by (simp add: type_mapping_def)
  have ty: "map_of [(''type'', PStr ''widget'')] ''type'' = Some (PStr ''widget'')"
    by simp
  have tagged: "type_tagged (Reply [Other ''Json'' [(''type'', PStr ''Json'')]] PNone (PInt 7) PNone)"
    by simp
  show ?thesis
    using segment_outline_bracketed [of "Reply [Other ''Json'' [(''type'', PStr ''Json'')]] PNone (PInt 7) PNone"
        example_env "[(''type'', PStr ''widget'')]" "''widget''" "''Widget''" "[]"]
      low cls ty tagged
    by (simp add: bracketed_def)
qed

section \<open>What aborts history formatting\<close>

























end
